theory Spec2Isabelle
  imports Complex_Main
begin

section \<open>JavaScript values\<close>

text \<open>
  The controller of \<^verbatim>\<open>baseCtrl.js\<close> moves plain JavaScript values around: request
  parameters, query options, rows. Numbers are only coerced and compared here, never
  computed with, so a number is a rational, NaN or an infinity (the two zeros are one).
\<close>

datatype jsnum = Finite rat | NaN | PosInfinity | NegInfinity

text \<open>
  An object is the list of its own properties in enumeration order, with distinct keys.
  \<open>JModel n\<close> is the ORM model registered as \<^verbatim>\<open>models[n]\<close>, and \<open>JAnd v\<close> is what
  \<^verbatim>\<open>models.Sequelize.and(v)\<close> returns; both are opaque to the controller.
\<close>

datatype jsval =
    JUndefined
  | JNull
  | JBool bool
  | JNum jsnum
  | JStr string
  | JArr "jsval list"
  | JObj "(string \<times> jsval) list"
  | JModel string
  | JAnd jsval

type_synonym jsobj = "(string \<times> jsval) list"

text \<open>What \<^verbatim>\<open>!v\<close>, \<^verbatim>\<open>a || b\<close> and \<^verbatim>\<open>if (v)\<close> test.\<close>

fun truthy :: "jsval \<Rightarrow> bool" where
  "truthy JUndefined = False"
| "truthy JNull = False"
| "truthy (JBool b) = b"
| "truthy (JNum n) = (n \<noteq> Finite 0 \<and> n \<noteq> NaN)"
| "truthy (JStr s) = (s \<noteq> [])"
| "truthy (JArr xs) = True"
| "truthy (JObj kvs) = True"
| "truthy (JModel n) = True"
| "truthy (JAnd v) = True"

text \<open>\<^verbatim>\<open>_.isArray(v) ? v : [v]\<close>\<close>

fun asArray :: "jsval \<Rightarrow> jsval list" where
  "asArray (JArr xs) = xs"
| "asArray v = [v]"

text \<open>
  The required modules. \<open>models\<close> is the table \<^verbatim>\<open>require('../../models')\<close> read at a
  name: \<open>JModel\<close> of that name where something is registered, undefined elsewhere.
  \<open>paramsToTree\<close> is the function of the package of that name. The two conversions of
  the language are given for the values whose conversion is a matter of parsing or
  printing: \<open>ToNumberOf\<close> for strings and objects, \<open>ToStringOf\<close> for numbers and arrays.
  \<open>setOther\<close> and \<open>omitOther\<close> are \<^verbatim>\<open>_.set\<close> and \<^verbatim>\<open>_.omit\<close> of lodash on the
  paths that are not walked below.
\<close>

record modules =
  models :: "string \<Rightarrow> jsval"
  paramsToTree :: "jsobj \<Rightarrow> jsobj"
  ToNumberOf :: "jsval \<Rightarrow> jsnum"
  ToStringOf :: "jsval \<Rightarrow> string"
  setOther :: "jsobj \<Rightarrow> string \<Rightarrow> jsval \<Rightarrow> jsobj"
  omitOther :: "jsobj \<Rightarrow> string list \<Rightarrow> jsobj"

text \<open>The unary \<^verbatim>\<open>+v\<close>.\<close>

fun ToNumber :: "modules \<Rightarrow> jsval \<Rightarrow> jsnum" where
  "ToNumber m (JNum n) = n"
| "ToNumber m JUndefined = NaN"
| "ToNumber m JNull = Finite 0"
| "ToNumber m (JBool b) = (if b then Finite 1 else Finite 0)"
| "ToNumber m v = ToNumberOf m v"

text \<open>The string a value becomes in \<^verbatim>\<open>v + '.model'\<close> and in \<^verbatim>\<open>models[v]\<close>.\<close>

fun ToString :: "modules \<Rightarrow> jsval \<Rightarrow> string" where
  "ToString m (JStr s) = s"
| "ToString m JUndefined = ''undefined''"
| "ToString m JNull = ''null''"
| "ToString m (JBool b) = (if b then ''true'' else ''false'')"
| "ToString m (JObj kvs) = ''[object Object]''"
| "ToString m v = ToStringOf m v"

section \<open>The lodash functions the controller calls\<close>

text \<open>
  A property path in its dotted form: \<^verbatim>\<open>'a.b'\<close> is the path a, b.
\<close>

fun splitDots :: "string \<Rightarrow> string \<Rightarrow> string list" where
  "splitDots seg [] = [seg]"
| "splitDots seg (c # cs) =
     (if c = CHR ''.'' then seg # splitDots [] cs else splitDots (seg @ [c]) cs)"

definition stringToPath :: "string \<Rightarrow> string list" where
  "stringToPath s = (if s = [] then [] else splitDots [] s)"

text \<open>\<^verbatim>\<open>object[key]\<close>: a missing property reads as undefined.\<close>

definition getProp :: "jsobj \<Rightarrow> string \<Rightarrow> jsval" where
  "getProp obj k = (case map_of obj k of None \<Rightarrow> JUndefined | Some v \<Rightarrow> v)"

text \<open>
  The names of a path that is walked here. A segment of digits is an index: \<^verbatim>\<open>_.set\<close>
  makes an array for it, and an object enumerates such a key before its names. A
  bracket belongs to the other form of a path. The remaining names are those every
  object inherits, which a read on the way finds, and those \<^verbatim>\<open>_.set\<close> refuses to
  write. A path with any of these, or with an empty segment, is left to \<open>setOther\<close>.
\<close>

definition inheritedNames :: "string list" where
  "inheritedNames =
     [''__proto__'', ''constructor'', ''prototype'', ''toString'', ''toLocaleString'',
      ''valueOf'', ''hasOwnProperty'', ''isPrototypeOf'', ''propertyIsEnumerable'',
      ''__defineGetter__'', ''__defineSetter__'', ''__lookupGetter__'', ''__lookupSetter__'']"

definition plainName :: "string \<Rightarrow> bool" where
  "plainName seg =
     (seg \<noteq> []
      \<and> \<not> list_all (\<lambda>c. c \<in> set ''0123456789'') seg
      \<and> CHR ''['' \<notin> set seg
      \<and> CHR '']'' \<notin> set seg
      \<and> seg \<notin> set inheritedNames)"

definition plainPath :: "string \<Rightarrow> bool" where
  "plainPath path = (path \<noteq> [] \<and> list_all plainName (stringToPath path))"

text \<open>
  \<^verbatim>\<open>object[key] = v\<close> for a plain name: an own property keeps its place, a new one
  goes last.
\<close>

fun assign :: "jsobj \<Rightarrow> string \<Rightarrow> jsval \<Rightarrow> jsobj" where
  "assign [] k v = [(k, v)]"
| "assign ((k', v') # kvs) k v =
     (if k' = k then (k, v) # kvs else (k', v') # assign kvs k v)"

text \<open>
  \<^verbatim>\<open>_.set(object, path, value)\<close> along plain names: it walks the path, going into the
  object that is on the way and making a new one where the property is missing or is
  a primitive. An array, a model or a condition on the way would be written to in
  place, with a property of its own; the walk stops there (\<open>None\<close>). A path that
  is itself a key of the object is no path to \<^verbatim>\<open>_.set\<close>, and is left to \<open>setOther\<close>
  as well.
\<close>

fun baseSet :: "jsobj \<Rightarrow> string list \<Rightarrow> jsval \<Rightarrow> jsobj option" where
  "baseSet obj [] v = Some obj"
| "baseSet obj [k] v = Some (assign obj k v)"
| "baseSet obj (k # ks) v =
     (case getProp obj k of
        JObj nested \<Rightarrow> map_option (\<lambda>n. assign obj k (JObj n)) (baseSet nested ks v)
      | JArr xs \<Rightarrow> None
      | JModel n \<Rightarrow> None
      | JAnd c \<Rightarrow> None
      | _ \<Rightarrow> map_option (\<lambda>n. assign obj k (JObj n)) (baseSet [] ks v))"

definition lodash_set :: "modules \<Rightarrow> jsobj \<Rightarrow> string \<Rightarrow> jsval \<Rightarrow> jsobj" where
  "lodash_set m obj path v =
     (if plainPath path \<and> path \<notin> set (map fst obj)
      then (case baseSet obj (stringToPath path) v of
              Some obj' \<Rightarrow> obj'
            | None \<Rightarrow> setOther m obj path v)
      else setOther m obj path v)"

text \<open>\<^verbatim>\<open>_.get(object, key, defaultValue)\<close>: the default stands in for undefined.\<close>

definition lodash_get :: "jsobj \<Rightarrow> string \<Rightarrow> jsval \<Rightarrow> jsval" where
  "lodash_get obj k dflt = (if getProp obj k = JUndefined then dflt else getProp obj k)"

text \<open>\<^verbatim>\<open>_.pick(value, key)\<close>: a value that is no object has no property to pick.\<close>

fun lodash_pick :: "jsval \<Rightarrow> string \<Rightarrow> jsobj" where
  "lodash_pick (JObj kvs) k = filter (\<lambda>(k', v). k' = k) kvs"
| "lodash_pick v k = []"

text \<open>\<^verbatim>\<open>_.omit(object, keys...)\<close>, for keys that are written as no path.\<close>

definition lodash_omit :: "jsobj \<Rightarrow> string list \<Rightarrow> jsobj" where
  "lodash_omit obj ks = filter (\<lambda>(k, v). k \<notin> set ks) obj"

text \<open>
  \<^verbatim>\<open>_.omit\<close> for keys that are computed: one with a dot or a bracket may be read as
  a path into the object, and is left to \<open>omitOther\<close>.
\<close>

definition plainKey :: "string \<Rightarrow> bool" where
  "plainKey k = (CHR ''.'' \<notin> set k \<and> CHR ''['' \<notin> set k \<and> CHR '']'' \<notin> set k)"

definition omitPaths :: "modules \<Rightarrow> jsobj \<Rightarrow> string list \<Rightarrow> jsobj" where
  "omitPaths m obj ks = (if list_all plainKey ks then lodash_omit obj ks else omitOther m obj ks)"

definition lodash_keys :: "jsobj \<Rightarrow> string list" where
  "lodash_keys obj = map fst obj"

definition lodash_values :: "jsobj \<Rightarrow> jsval list" where
  "lodash_values obj = map snd obj"

text \<open>The decimal numeral of an index, the key it is read at.\<close>

function decimal :: "nat \<Rightarrow> string" where
  "decimal n =
     (if n < 10 then [''0123456789'' ! n]
      else decimal (n div 10) @ [''0123456789'' ! (n mod 10)])"
  by pat_completeness auto
termination
  by (relation "measure (\<lambda>n. n)") auto

declare decimal.simps [simp del]

text \<open>
  lodash takes an object for array-like when its \<open>length\<close> is a number that is a whole
  one, not negative and at most \<open>2^53 - 1\<close>.
\<close>

definition arrayLikeLength :: "jsobj \<Rightarrow> nat option" where
  "arrayLikeLength obj =
     (case getProp obj ''length'' of
        JNum (Finite q) \<Rightarrow>
          if 0 \<le> q \<and> q = of_int \<lfloor>q\<rfloor> \<and> q \<le> 9007199254740991
          then Some (nat \<lfloor>q\<rfloor>) else None
      | _ \<Rightarrow> None)"

text \<open>
  The (key, value) pairs \<^verbatim>\<open>_.reduce\<close> and \<^verbatim>\<open>_.map\<close> visit in a collection: the
  indexed elements of an array, the indexed characters of a string, the properties
  at the indices below its length of an array-like object, the properties of any
  other object, nothing in any other value.
\<close>

fun indexed :: "nat \<Rightarrow> jsval list \<Rightarrow> (jsval \<times> jsval) list" where
  "indexed i [] = []"
| "indexed i (x # xs) = (JNum (Finite (of_nat i)), x) # indexed (Suc i) xs"

fun entries :: "jsval \<Rightarrow> (jsval \<times> jsval) list" where
  "entries (JObj kvs) =
     (case arrayLikeLength kvs of
        Some n \<Rightarrow> indexed 0 (map (\<lambda>i. getProp kvs (decimal i)) [0..<n])
      | None \<Rightarrow> map (\<lambda>(k, v). (JStr k, v)) kvs)"
| "entries (JArr xs) = indexed 0 xs"
| "entries (JStr s) = indexed 0 (map (\<lambda>c. JStr [c]) s)"
| "entries v = []"

text \<open>
  \<^verbatim>\<open>_.difference(array, values...)\<close>: only the arguments that are arrays or
  array-like objects count, and elements are compared as SameValueZero, which equates
  primitives of equal value and no two distinct objects.
\<close>

fun primitive :: "jsval \<Rightarrow> bool" where
  "primitive (JArr xs) = False"
| "primitive (JObj kvs) = False"
| "primitive (JModel n) = False"
| "primitive (JAnd v) = False"
| "primitive v = True"

fun arrayElems :: "jsval \<Rightarrow> jsval list" where
  "arrayElems (JArr xs) = xs"
| "arrayElems (JObj kvs) =
     (case arrayLikeLength kvs of
        Some n \<Rightarrow> map (\<lambda>i. getProp kvs (decimal i)) [0..<n]
      | None \<Rightarrow> [])"
| "arrayElems v = []"

definition lodash_difference :: "jsval list \<Rightarrow> jsval list \<Rightarrow> jsval list" where
  "lodash_difference array vals =
     filter (\<lambda>a. \<not> (primitive a \<and> a \<in> set (concat (map arrayElems vals)))) array"

section \<open>The ORM model and the controller\<close>

text \<open>
  A promise of the ORM settles as a rejection (\<open>Inl\<close>) or a resolved value (\<open>Inr\<close>).
  The check \<^verbatim>\<open>e instanceof models.Sequelize.UniqueConstraintError\<close> only separates
  that class from every other reason.
\<close>

datatype orm_error = UniqueConstraintError string | OtherError string

text \<open>
  What a promise of the controller rejects with: an error made by \<^verbatim>\<open>HttpError(status)\<close>,
  or the reason of an ORM promise, passed on.
\<close>

datatype error = HttpError nat | Rejected orm_error

text \<open>
  The part of \<^verbatim>\<open>this.model\<close> the controller uses: the attribute table, the target
  model name of each association, and the query methods, each with what its promise
  settles as. The ORM is Sequelize: \<^verbatim>\<open>destroy\<close> resolves with the number of rows it
  deleted, \<^verbatim>\<open>update\<close> with an array whose first element is the number of rows it
  affected. \<open>countRejectsFirst\<close> is the order in which a \<^verbatim>\<open>findAll\<close> and a \<^verbatim>\<open>count\<close>
  started together reject, where both do.
\<close>

record model =
  attributes :: jsobj
  associations :: "(string \<times> string) list"
  findAll :: "jsobj \<Rightarrow> orm_error + jsval list"
  count :: "jsobj \<Rightarrow> orm_error + jsval"
  findById :: "jsval \<Rightarrow> jsobj \<Rightarrow> orm_error + jsval"
  create :: "jsval \<Rightarrow> orm_error + jsval"
  findOne :: "jsobj \<Rightarrow> orm_error + jsval"
  update :: "jsval \<Rightarrow> jsobj \<Rightarrow> orm_error + jsval"
  destroy :: "jsobj \<Rightarrow> orm_error + jsval"
  countRejectsFirst :: "jsobj \<Rightarrow> bool"

definition LIMIT :: string where "LIMIT = ''limit''"
definition OFFSET :: string where "OFFSET = ''offset''"
definition ORDER :: string where "ORDER = ''order''"
definition INCLUDE :: string where "INCLUDE = ''include''"
definition ATTRIBUTES :: string where "ATTRIBUTES = ''attributes''"
definition EXCLUDE :: string where "EXCLUDE = ''exclude''"
definition IGNORE :: "string list" where
  "IGNORE = [LIMIT, OFFSET, ORDER, INCLUDE, ATTRIBUTES]"

text \<open>The fields of an instance of \<^verbatim>\<open>Base\<close>.\<close>

record base =
  model :: model
  relations :: "string list"
  defaultAttributes :: jsval
  defaultExclude :: jsval

text \<open>The constructor, given the model \<^verbatim>\<open>models[this.constructor.name]\<close>.\<close>

definition Base :: "model \<Rightarrow> base" where
  "Base m =
     \<lparr> model = m,
       relations = map snd (associations m),
       defaultAttributes = JNull,
       defaultExclude = JNull \<rparr>"

text \<open>
  The static getters \<^verbatim>\<open>Base.LIMIT\<close> and \<^verbatim>\<open>Base.OFFSET\<close>, which
  \<^verbatim>\<open>this.constructor.LIMIT\<close> and \<^verbatim>\<open>this.constructor.OFFSET\<close> read in every class
  that inherits them.
\<close>

definition Base_LIMIT :: jsval where "Base_LIMIT = JNum (Finite 100)"
definition Base_OFFSET :: jsval where "Base_OFFSET = JNum (Finite 0)"

subsection \<open>\<^verbatim>\<open>_getOptions\<close>\<close>

text \<open>\<^verbatim>\<open>this.relations.indexOf(name) > -1\<close>: only a string is found among the names.\<close>

definition isRelation :: "base \<Rightarrow> jsval \<Rightarrow> bool" where
  "isRelation this name = (case name of JStr s \<Rightarrow> s \<in> set (relations this) | _ \<Rightarrow> False)"

text \<open>The body of the first \<^verbatim>\<open>_.reduce\<close>, over the parameters as a collection.\<close>

definition includeStep :: "base \<Rightarrow> modules \<Rightarrow> jsobj \<Rightarrow> jsval \<times> jsval \<Rightarrow> jsobj" where
  "includeStep this m incl entry =
     (case entry of (name, val) \<Rightarrow>
        if isRelation this name then
          let incl1 = lodash_set m incl (ToString m name @ ''.model'') (models m (ToString m name));
              attrs = lodash_get (lodash_pick val ATTRIBUTES) ATTRIBUTES JUndefined;
              incl2 = (if truthy attrs
                       then lodash_set m incl1 (ToString m name @ ''.'' @ ATTRIBUTES)
                              (JArr (asArray attrs))
                       else incl1);
              val' = (if truthy attrs
                      then (case val of JObj kvs \<Rightarrow> JObj (lodash_omit kvs [ATTRIBUTES]) | _ \<Rightarrow> val)
                      else val)
          in lodash_set m incl2 (ToString m name @ ''.where'') (JAnd val')
        else incl)"

text \<open>\<^verbatim>\<open>includeModels.forEach((name) => _.set(include, name + '.model', models[name]))\<close>\<close>

definition includeModel :: "modules \<Rightarrow> jsobj \<Rightarrow> jsval \<Rightarrow> jsobj" where
  "includeModel m incl name =
     lodash_set m incl (ToString m name @ ''.model'') (models m (ToString m name))"

text \<open>
  The body of the second \<^verbatim>\<open>_.reduce\<close>, over \<^verbatim>\<open>options.order\<close>. It also writes to
  \<open>include\<close>, so the state it threads is the pair (order, include). In the branch of an
  association the array \<^verbatim>\<open>order.concat(...)\<close> builds is a new one that nothing keeps:
  \<open>order\<close> itself is returned as it was.
\<close>

definition orderStep ::
  "base \<Rightarrow> modules \<Rightarrow> jsval list \<times> jsobj \<Rightarrow> jsval \<times> jsval \<Rightarrow> jsval list \<times> jsobj" where
  "orderStep this m acc entry =
     (case acc of (order, incl) \<Rightarrow>
      case entry of (name, value) \<Rightarrow>
        if isRelation this name then
          let orderModel = models m (ToString m name);
              incl' = lodash_set m incl (ToString m name @ ''.model'') orderModel;
              concatenated =
                order @ map (\<lambda>(field, val). JArr [orderModel, field, val]) (entries value)
          in (order, incl')
        else (order @ [JArr [name, value]], incl))"

definition Base_getOptions :: "base \<Rightarrow> modules \<Rightarrow> jsobj \<Rightarrow> jsobj" where
  "Base_getOptions this m options =
     (let incl1 = foldl (includeStep this m) [] (entries (JObj options));
          includeModels =
            asArray (if truthy (getProp options INCLUDE) then getProp options INCLUDE else JArr []);
          incl2 = foldl (includeModel m) incl1 includeModels;
          reduced = foldl (orderStep this m) ([], incl2) (entries (getProp options ORDER));
          order = fst reduced;
          incl3 = snd reduced;
          whereq = omitPaths m options (lodash_keys incl3 @ IGNORE);
          limit = ToNumber m (lodash_get options LIMIT Base_LIMIT);
          offset = ToNumber m (lodash_get options OFFSET Base_OFFSET);
          attrs0 =
            (if truthy (getProp options ATTRIBUTES) then getProp options ATTRIBUTES
             else if truthy (defaultAttributes this) then defaultAttributes this
             else JArr (map JStr (lodash_keys (attributes (model this)))));
          attrs = lodash_difference (asArray attrs0)
                    [getProp options EXCLUDE, defaultExclude this]
      in [(''attributes'', JArr attrs),
          (''where'', JObj whereq),
          (''include'', JArr (lodash_values incl3)),
          (''order'', JArr order),
          (''limit'', JNum limit),
          (''offset'', JNum offset),
          (''subQuery'', JBool False)])"

subsection \<open>The public methods\<close>

text \<open>
  \<^verbatim>\<open>find\<close> starts both queries and waits for both. Where both reject, the promise
  rejects with the reason of the one that rejects first.
\<close>

definition Base_find :: "base \<Rightarrow> modules \<Rightarrow> jsobj \<Rightarrow> error + jsval" where
  "Base_find this m params =
     (let params' = paramsToTree m params;
          options = Base_getOptions this m params';
          dataP = findAll (model this) options;
          totalP = count (model this) (lodash_omit options [LIMIT, OFFSET])
      in case dataP of
           Inl e \<Rightarrow>
             (case totalP of
                Inl e' \<Rightarrow>
                  Inl (Rejected (if countRejectsFirst (model this) options then e' else e))
              | Inr total' \<Rightarrow> Inl (Rejected e))
         | Inr rows \<Rightarrow>
             (case totalP of
                Inl e \<Rightarrow> Inl (Rejected e)
              | Inr total' \<Rightarrow>
                  Inr (JObj
                    [(''data'', JArr rows),
                     (''meta'', JObj
                        [(''count'', JNum (Finite (of_nat (length rows)))),
                         (''total'', total'),
                         (''limit'', getProp options ''limit''),
                         (''offset'', getProp options ''offset'')])])))"

definition Base_findById :: "base \<Rightarrow> modules \<Rightarrow> jsval \<Rightarrow> jsobj \<Rightarrow> error + jsval" where
  "Base_findById this m id' params =
     (let options = Base_getOptions this m params
      in case findById (model this) id' options of
           Inl e \<Rightarrow> Inl (Rejected e)
         | Inr data \<Rightarrow>
             if \<not> truthy data then Inl (HttpError 404)
             else Inr (JObj [(''data'', data)]))"

definition Base_create :: "base \<Rightarrow> jsval \<Rightarrow> error + jsval" where
  "Base_create this data =
     (let caught =
            (case create (model this) data of
               Inl (UniqueConstraintError msg) \<Rightarrow> findOne (model this) [(''where'', data)]
             | Inl e \<Rightarrow> Inl e
             | Inr created \<Rightarrow> Inr created)
      in case caught of
           Inl e \<Rightarrow> Inl (Rejected e)
         | Inr data' \<Rightarrow> Inr (JObj [(''data'', data')]))"

definition Base_update :: "base \<Rightarrow> jsval \<Rightarrow> jsval \<Rightarrow> error + jsval" where
  "Base_update this id' data =
     (case update (model this) data [(''where'', JObj [(''id'', id')])] of
        Inl e \<Rightarrow> Inl (Rejected e)
      | Inr affectedRows \<Rightarrow>
          if \<not> truthy affectedRows then Inl (HttpError 204) else Inr JUndefined)"

definition Base_remove :: "base \<Rightarrow> jsval \<Rightarrow> error + jsval" where
  "Base_remove this condition =
     (case destroy (model this) [(''where'', condition)] of
        Inl e \<Rightarrow> Inl (Rejected e)
      | Inr affectedRows \<Rightarrow>
          if \<not> truthy affectedRows then Inl (HttpError 202) else Inr JUndefined)"

subsection \<open>What a lookup resolves with\<close>

text \<open>A lookup that finds no record resolves with null (or with nothing at all).\<close>

fun noRecord :: "jsval \<Rightarrow> bool" where
  "noRecord JNull = True"
| "noRecord JUndefined = True"
| "noRecord v = False"

section \<open>A controller to run\<close>

text \<open>
  A \<open>paramsToTree\<close> for the examples: it nests the dotted keys of a flat parameter
  object, \<^verbatim>\<open>{'a.b': v}\<close> becoming \<^verbatim>\<open>{a: {b: v}}\<close>.
\<close>

definition nestDotted :: "jsobj \<Rightarrow> jsobj" where
  "nestDotted params =
     foldl (\<lambda>tree (k, v). case baseSet tree (stringToPath k) v of
                            Some tree' \<Rightarrow> tree' | None \<Rightarrow> tree) [] params"

text \<open>
  The conversions of the examples, which use strings of decimal digits and whole
  numbers only: such a string is the number it writes (the empty one is 0), such a
  number prints as its numeral.
\<close>

definition digitsToNumber :: "jsval \<Rightarrow> jsnum" where
  "digitsToNumber v =
     (case v of
        JStr s \<Rightarrow>
          if list_all (\<lambda>c. c \<in> set ''0123456789'') s
          then Finite (of_nat (foldl (\<lambda>n c. 10 * n + (of_char c - 48)) 0 s))
          else NaN
      | _ \<Rightarrow> NaN)"

definition numberToDigits :: "jsval \<Rightarrow> string" where
  "numberToDigits v =
     (case v of
        JNum (Finite q) \<Rightarrow> if 0 \<le> q \<and> q = of_int \<lfloor>q\<rfloor> then decimal (nat \<lfloor>q\<rfloor>) else []
      | _ \<Rightarrow> [])"

text \<open>
  Two models are registered, \<^verbatim>\<open>User\<close> and \<^verbatim>\<open>Profile\<close>. The examples set and
  omit plain paths only.
\<close>

definition exampleModules :: modules where
  "exampleModules =
     \<lparr> models = (\<lambda>n. if n = ''User'' \<or> n = ''Profile'' then JModel n else JUndefined),
       paramsToTree = nestDotted,
       ToNumberOf = digitsToNumber,
       ToStringOf = numberToDigits,
       setOther = (\<lambda>obj path v. obj),
       omitOther = (\<lambda>obj ks. obj) \<rparr>"

text \<open>
  The model of a \<^verbatim>\<open>User\<close> controller, with one association, to \<^verbatim>\<open>Profile\<close>.
  Its table answers every list query with two rows out of seven, knows the record of
  id 1 only, refuses a second \<^verbatim>\<open>bob\<close>, and updates or deletes the row of id 1 only.
  Its queries never reject together.
\<close>

definition exampleModel :: model where
  "exampleModel =
     \<lparr> attributes = [(''id'', JObj []), (''name'', JObj []), (''password'', JObj [])],
       associations = [(''profile'', ''Profile'')],
       findAll = (\<lambda>options. Inr [JObj [(''id'', JNum (Finite 1))], JObj [(''id'', JNum (Finite 2))]]),
       count = (\<lambda>options. Inr (JNum (Finite 7))),
       findById = (\<lambda>id' options. Inr (if id' = JNum (Finite 1) then JObj [(''id'', id')] else JNull)),
       create = (\<lambda>data. if data = JObj [(''name'', JStr ''bob'')]
                        then Inl (UniqueConstraintError ''name must be unique'') else Inr data),
       findOne = (\<lambda>options. Inr JNull),
       update = (\<lambda>data options.
                   Inr (JArr [JNum (Finite (if options = [(''where'', JObj [(''id'', JNum (Finite 1))])]
                                            then 1 else 0))])),
       destroy = (\<lambda>options.
                    Inr (JNum (Finite (if options = [(''where'', JObj [(''id'', JNum (Finite 1))])]
                                       then 1 else 0)))),
       countRejectsFirst = (\<lambda>options. False) \<rparr>"

text \<open>The same model, with a lookup that resolves with the options it is given.\<close>

definition spyModel :: model where
  "spyModel = exampleModel \<lparr> findById := (\<lambda>id' options. Inr (JObj options)) \<rparr>"

section \<open>Properties\<close>

lemmas keys_defs = LIMIT_def OFFSET_def ORDER_def INCLUDE_def ATTRIBUTES_def EXCLUDE_def IGNORE_def

lemmas eval_defs =
  Base_getOptions_def Base_def exampleModel_def exampleModules_def getProp_def
  lodash_omit_def lodash_keys_def lodash_values_def lodash_set_def lodash_get_def
  lodash_difference_def stringToPath_def includeStep_def includeModel_def orderStep_def
  isRelation_def Base_LIMIT_def Base_OFFSET_def keys_defs Let_def
  plainPath_def plainName_def inheritedNames_def arrayLikeLength_def
  omitPaths_def plainKey_def digitsToNumber_def

text \<open>The options are always the same seven properties, in the same order.\<close>

lemma getOptions_shape:
  "\<exists>a w i ord l off. Base_getOptions this m params =
     [(''attributes'', a), (''where'', w), (''include'', i), (''order'', ord),
      (''limit'', l), (''offset'', off), (''subQuery'', JBool False)]"
  by (simp add: Base_getOptions_def Let_def)

lemma noRecord_falsy: "noRecord v \<Longrightarrow> \<not> truthy v"
  by (cases v) simp_all

text \<open>
  The second reduction keeps, in their order, the pairs of the entries of
  \<^verbatim>\<open>options.order\<close> whose key is no association, and nothing else.
\<close>

lemma orderStep_foldl:
  "foldl (orderStep this m) (ord, incl) es =
     (ord @ map (\<lambda>(name, value). JArr [name, value])
              (filter (\<lambda>(name, value). \<not> isRelation this name) es),
      foldl (\<lambda>inc (name, value).
               if isRelation this name
               then lodash_set m inc (ToString m name @ ''.model'') (models m (ToString m name))
               else inc) incl es)"
  by (induction es arbitrary: ord incl) (auto simp: orderStep_def Let_def)

lemma getOptions_order:
  "getProp (Base_getOptions this m params) ORDER =
     JArr (map (\<lambda>(name, value). JArr [name, value])
            (filter (\<lambda>(name, value). \<not> isRelation this name) (entries (getProp params ORDER))))"
  by (simp add: Base_getOptions_def Let_def orderStep_foldl) (simp add: getProp_def ORDER_def)

text \<open>
  \<^verbatim>\<open>update\<close> rejects with \<^verbatim>\<open>HttpError(204)\<close> exactly when the update of the ORM
  resolves with a falsy value. A promise that resolves with an array, whatever is in
  it, is never taken for an update of no row: an array is truthy.
\<close>

lemma update_204_iff_falsy:
  "Base_update this id' data = Inl (HttpError 204)
     \<longleftrightarrow> (\<exists>v. update (model this) data [(''where'', JObj [(''id'', id')])] = Inr v
              \<and> \<not> truthy v)"
  by (cases "update (model this) data [(''where'', JObj [(''id'', id')])]")
     (simp_all add: Base_update_def)

lemma update_resolves_on_array:
  "update (model this) data [(''where'', JObj [(''id'', id')])] = Inr (JArr xs)
     \<Longrightarrow> Base_update this id' data = Inr JUndefined"
  by (simp add: Base_update_def)

subsection \<open>\<^verbatim>\<open>find\<close>\<close>

text \<open>
  C1. For every parameter object, once both queries of the ORM resolve, \<^verbatim>\<open>find\<close>
  resolves with \<^verbatim>\<open>{data, meta}\<close>: \<open>data\<close> is the rows \<^verbatim>\<open>findAll\<close> returns under the
  options built from the normalised parameters, \<open>meta.count\<close> is the length of \<open>data\<close>,
  \<open>meta.total\<close> is what \<^verbatim>\<open>count\<close> returns under those options without their
  \<open>limit\<close> and \<open>offset\<close> keys (the \<open>where\<close> and \<open>include\<close> options are the same), and
  \<open>meta.limit\<close> and \<open>meta.offset\<close> are the \<open>limit\<close> and \<open>offset\<close> of the options of the
  data query.
\<close>

theorem find_resolves_data_meta:
  assumes opts: "opts = Base_getOptions this m (paramsToTree m params)"
      and rows: "findAll (model this) opts = Inr rows"
      and tot: "count (model this) (lodash_omit opts [LIMIT, OFFSET]) = Inr total'"
  shows "Base_find this m params =
           Inr (JObj [(''data'', JArr rows),
                      (''meta'', JObj [(''count'', JNum (Finite (of_nat (length rows)))),
                                       (''total'', total'),
                                       (''limit'', getProp opts LIMIT),
                                       (''offset'', getProp opts OFFSET)])])
         \<and> LIMIT \<notin> set (lodash_keys (lodash_omit opts [LIMIT, OFFSET]))
         \<and> OFFSET \<notin> set (lodash_keys (lodash_omit opts [LIMIT, OFFSET]))
         \<and> getProp (lodash_omit opts [LIMIT, OFFSET]) ''where'' = getProp opts ''where''
         \<and> getProp (lodash_omit opts [LIMIT, OFFSET]) ''include'' = getProp opts ''include''"
proof -
  obtain a w i ord l off where shape: "opts =
     [(''attributes'', a), (''where'', w), (''include'', i), (''order'', ord),
      (''limit'', l), (''offset'', off), (''subQuery'', JBool False)]"
    using getOptions_shape [of this m "paramsToTree m params"] opts by auto
  have res: "Base_find this m params =
           Inr (JObj [(''data'', JArr rows),
                      (''meta'', JObj [(''count'', JNum (Finite (of_nat (length rows)))),
                                       (''total'', total'),
                                       (''limit'', getProp opts LIMIT),
                                       (''offset'', getProp opts OFFSET)])])"
    using rows tot unfolding opts by (simp add: Base_find_def Let_def LIMIT_def OFFSET_def)
  have omitted: "lodash_omit opts [LIMIT, OFFSET] =
     [(''attributes'', a), (''where'', w), (''include'', i), (''order'', ord),
      (''subQuery'', JBool False)]"
    unfolding shape by (simp add: lodash_omit_def LIMIT_def OFFSET_def)
  show ?thesis
    unfolding omitted using res unfolding shape
    by (simp add: lodash_keys_def getProp_def LIMIT_def OFFSET_def)
qed

theorem find_resolves_data_meta_witness:
  "Base_find (Base exampleModel) exampleModules [(''name'', JStr ''bob''), (''limit'', JStr ''10'')]
     = Inr (JObj [(''data'', JArr [JObj [(''id'', JNum (Finite 1))],
                                   JObj [(''id'', JNum (Finite 2))]]),
                  (''meta'', JObj [(''count'', JNum (Finite 2)),
                                   (''total'', JNum (Finite 7)),
                                   (''limit'', JNum (Finite 10)),
                                   (''offset'', JNum (Finite 0))])])"
proof -
  let ?ctl = "Base exampleModel"
  let ?opts = "Base_getOptions ?ctl exampleModules
                 (paramsToTree exampleModules [(''name'', JStr ''bob''), (''limit'', JStr ''10'')])"
  have rows: "findAll (model ?ctl) ?opts
                = Inr [JObj [(''id'', JNum (Finite 1))], JObj [(''id'', JNum (Finite 2))]]"
    by (simp add: Base_def exampleModel_def)
  have tot: "count (model ?ctl) (lodash_omit ?opts [LIMIT, OFFSET]) = Inr (JNum (Finite 7))"
    by (simp add: Base_def exampleModel_def)
  have lim: "getProp ?opts LIMIT = JNum (Finite 10)"
    by (simp add: nestDotted_def eval_defs)
  have off: "getProp ?opts OFFSET = JNum (Finite 0)"
    by (simp add: nestDotted_def eval_defs)
  show ?thesis
    using find_resolves_data_meta [OF refl rows tot] lim off by simp
qed

subsection \<open>\<^verbatim>\<open>findById\<close>\<close>

text \<open>
  C2. For every id and parameters, where the lookup of the ORM resolves with no record
  or with a truthy value (every record is one), \<^verbatim>\<open>findById\<close> rejects with
  \<^verbatim>\<open>HttpError(404)\<close> exactly when the lookup resolves with no record, and resolves with
  \<^verbatim>\<open>{data: record}\<close> when it resolves with one. A lookup that rejects never gives a 404.
\<close>

theorem findById_404_iff_no_record:
  assumes lookup: "lookup = findById (model this) id' (Base_getOptions this m params)"
      and shape: "\<forall>v. lookup = Inr v \<longrightarrow> noRecord v \<or> truthy v"
  shows "(Base_findById this m id' params = Inl (HttpError 404)
            \<longleftrightarrow> (\<exists>v. lookup = Inr v \<and> noRecord v))
         \<and> (\<forall>v. lookup = Inr v \<and> \<not> noRecord v
               \<longrightarrow> Base_findById this m id' params = Inr (JObj [(''data'', v)]))"
proof (cases lookup)
  case (Inl e)
  then show ?thesis
    using lookup by (simp add: Base_findById_def Let_def)
next
  case (Inr v)
  with shape have "noRecord v \<or> truthy v" by simp
  then show ?thesis
  proof
    assume "noRecord v"
    then show ?thesis
      using Inr lookup noRecord_falsy [of v] by (simp add: Base_findById_def Let_def)
  next
    assume t: "truthy v"
    then have "\<not> noRecord v" using noRecord_falsy by blast
    then show ?thesis
      using Inr lookup t by (simp add: Base_findById_def Let_def)
  qed
qed

theorem findById_404_iff_no_record_witness:
  "(Base_findById (Base exampleModel) exampleModules (JNum (Finite 2)) [(''name'', JStr ''bob'')]
      = Inl (HttpError 404))
   \<and> (Base_findById (Base exampleModel) exampleModules (JNum (Finite 1)) [(''name'', JStr ''bob'')]
      = Inr (JObj [(''data'', JObj [(''id'', JNum (Finite 1))])]))"
proof -
  let ?ctl = "Base exampleModel"
  let ?p = "[(''name'', JStr ''bob'')]"
  have l2: "findById (model ?ctl) (JNum (Finite 2)) (Base_getOptions ?ctl exampleModules ?p)
              = Inr JNull"
    by (simp add: Base_def exampleModel_def)
  have l1: "findById (model ?ctl) (JNum (Finite 1)) (Base_getOptions ?ctl exampleModules ?p)
              = Inr (JObj [(''id'', JNum (Finite 1))])"
    by (simp add: Base_def exampleModel_def)
  have a: "Base_findById ?ctl exampleModules (JNum (Finite 2)) ?p = Inl (HttpError 404)"
    using findById_404_iff_no_record [OF l2 [symmetric]] by simp
  have b: "Base_findById ?ctl exampleModules (JNum (Finite 1)) ?p
             = Inr (JObj [(''data'', JObj [(''id'', JNum (Finite 1))])])"
    using findById_404_iff_no_record [OF l1 [symmetric]] by simp
  show ?thesis using a b by simp
qed

text \<open>
  C9, for \<^verbatim>\<open>findById\<close>: the options go to the ORM built from the parameters as they
  came. With a flat key \<^verbatim>\<open>'Profile.name'\<close> the lookup is asked to filter on a column of
  that name and to include nothing, where the normalised parameters would have it
  include the association \<^verbatim>\<open>Profile\<close> filtered on \<open>name\<close>.
\<close>

theorem findById_skips_paramsToTree:
  "Base_findById (Base spyModel) exampleModules (JNum (Finite 1)) [(''Profile.name'', JStr ''x'')]
     = Inr (JObj [(''data'', JObj
         [(''attributes'', JArr [JStr ''id'', JStr ''name'', JStr ''password'']),
          (''where'', JObj [(''Profile.name'', JStr ''x'')]),
          (''include'', JArr []),
          (''order'', JArr []),
          (''limit'', JNum (Finite 100)),
          (''offset'', JNum (Finite 0)),
          (''subQuery'', JBool False)])])
   \<and> Base_getOptions (Base spyModel) exampleModules
        (paramsToTree exampleModules [(''Profile.name'', JStr ''x'')])
     = [(''attributes'', JArr [JStr ''id'', JStr ''name'', JStr ''password'']),
        (''where'', JObj []),
        (''include'', JArr [JObj [(''model'', JModel ''Profile''),
                                  (''where'', JAnd (JObj [(''name'', JStr ''x'')]))]]),
        (''order'', JArr []),
        (''limit'', JNum (Finite 100)),
        (''offset'', JNum (Finite 0)),
        (''subQuery'', JBool False)]"
  by (simp add: Base_findById_def spyModel_def nestDotted_def eval_defs)

subsection \<open>\<^verbatim>\<open>create\<close>\<close>

text \<open>
  C3. For every data object, \<^verbatim>\<open>create\<close> resolves with \<^verbatim>\<open>{data: created}\<close> when the
  insert resolves; when the insert rejects with a \<^verbatim>\<open>UniqueConstraintError\<close> it looks
  up \<^verbatim>\<open>findOne({where: data})\<close> and resolves with \<^verbatim>\<open>{data: found}\<close>, what that lookup
  resolves with; when the insert rejects with any other error, \<^verbatim>\<open>create\<close> rejects
  with that error.
\<close>

theorem create_outcomes:
  "(\<forall>created. create (model this) data = Inr created
       \<longrightarrow> Base_create this data = Inr (JObj [(''data'', created)]))
   \<and> (\<forall>msg found. create (model this) data = Inl (UniqueConstraintError msg)
         \<and> findOne (model this) [(''where'', data)] = Inr found
       \<longrightarrow> Base_create this data = Inr (JObj [(''data'', found)]))
   \<and> (\<forall>e. create (model this) data = Inl e \<and> (\<forall>msg. e \<noteq> UniqueConstraintError msg)
       \<longrightarrow> Base_create this data = Inl (Rejected e))"
proof (intro conjI allI impI)
  fix created
  assume "create (model this) data = Inr created"
  then show "Base_create this data = Inr (JObj [(''data'', created)])"
    by (simp add: Base_create_def)
next
  fix msg found
  assume "create (model this) data = Inl (UniqueConstraintError msg)
            \<and> findOne (model this) [(''where'', data)] = Inr found"
  then show "Base_create this data = Inr (JObj [(''data'', found)])"
    by (simp add: Base_create_def)
next
  fix e
  assume h: "create (model this) data = Inl e \<and> (\<forall>msg. e \<noteq> UniqueConstraintError msg)"
  then obtain msg where "e = OtherError msg" by (cases e) auto
  with h show "Base_create this data = Inl (Rejected e)"
    by (simp add: Base_create_def)
qed

theorem create_outcomes_witness:
  "Base_create (Base exampleModel) (JObj [(''name'', JStr ''ann'')])
     = Inr (JObj [(''data'', JObj [(''name'', JStr ''ann'')])])
   \<and> Base_create (Base exampleModel) (JObj [(''name'', JStr ''bob'')])
     = Inr (JObj [(''data'', JNull)])"
proof -
  let ?ctl = "Base exampleModel"
  have c1: "create (model ?ctl) (JObj [(''name'', JStr ''ann'')])
              = Inr (JObj [(''name'', JStr ''ann'')])"
    by (simp add: Base_def exampleModel_def)
  have c2: "create (model ?ctl) (JObj [(''name'', JStr ''bob'')])
              = Inl (UniqueConstraintError ''name must be unique'')
            \<and> findOne (model ?ctl) [(''where'', JObj [(''name'', JStr ''bob'')])] = Inr JNull"
    by (simp add: Base_def exampleModel_def)
  show ?thesis
    using create_outcomes [of ?ctl "JObj [(''name'', JStr ''ann'')]"] c1
          create_outcomes [of ?ctl "JObj [(''name'', JStr ''bob'')]"] c2
    by blast
qed

text \<open>
  C10. When the insert rejects with a \<^verbatim>\<open>UniqueConstraintError\<close> and the lookup that
  follows finds no record, \<^verbatim>\<open>create\<close> resolves with \<^verbatim>\<open>{data: null}\<close>; it does not
  reject.
\<close>

theorem create_fallback_finds_nothing:
  assumes "create (model this) data = Inl (UniqueConstraintError msg)"
      and "findOne (model this) [(''where'', data)] = Inr JNull"
  shows "Base_create this data = Inr (JObj [(''data'', JNull)])"
  using assms by (simp add: Base_create_def)

theorem create_fallback_finds_nothing_witness:
  "Base_create (Base exampleModel) (JObj [(''name'', JStr ''bob'')])
     = Inr (JObj [(''data'', JNull)])"
proof -
  let ?ctl = "Base exampleModel"
  have c: "create (model ?ctl) (JObj [(''name'', JStr ''bob'')])
              = Inl (UniqueConstraintError ''name must be unique'')"
    by (simp add: Base_def exampleModel_def)
  have f: "findOne (model ?ctl) [(''where'', JObj [(''name'', JStr ''bob'')])] = Inr JNull"
    by (simp add: Base_def exampleModel_def)
  show ?thesis by (rule create_fallback_finds_nothing [OF c f])
qed

subsection \<open>\<^verbatim>\<open>update\<close> and \<^verbatim>\<open>remove\<close>\<close>

text \<open>
  C4, at \<^verbatim>\<open>update(5, {name: 'eve'})\<close> where no row has that id: the update of the ORM
  affects no row and resolves with \<^verbatim>\<open>[0]\<close>. The array is truthy, so the test
  \<^verbatim>\<open>!affectedRows\<close> fails and \<^verbatim>\<open>update\<close> resolves, where its comment promises
  \<^verbatim>\<open>HttpError(204)\<close>.
\<close>

theorem update_resolves_on_zero_rows:
  "update (model (Base exampleModel)) (JObj [(''name'', JStr ''eve'')])
       [(''where'', JObj [(''id'', JNum (Finite 5))])]
     = Inr (JArr [JNum (Finite 0)])
   \<and> Base_update (Base exampleModel) (JNum (Finite 5)) (JObj [(''name'', JStr ''eve'')])
     = Inr JUndefined"
  by (simp add: Base_update_def Base_def exampleModel_def)

text \<open>
  C5. For every condition, where the destroy of the ORM, called with
  \<^verbatim>\<open>{where: condition}\<close>, resolves with the number \<open>n\<close> of rows it deleted, \<^verbatim>\<open>remove\<close>
  rejects with \<^verbatim>\<open>HttpError(202)\<close> exactly when \<open>n\<close> is zero, and resolves with no
  payload exactly when \<open>n\<close> is at least one.
\<close>

theorem remove_202_iff_zero_rows:
  assumes "destroy (model this) [(''where'', condition)] = Inr (JNum (Finite (of_nat n)))"
  shows "(Base_remove this condition = Inl (HttpError 202) \<longleftrightarrow> n = 0)
         \<and> (Base_remove this condition = Inr JUndefined \<longleftrightarrow> 0 < n)"
  using assms by (simp add: Base_remove_def)

theorem remove_202_iff_zero_rows_witness:
  "Base_remove (Base exampleModel) (JObj [(''id'', JNum (Finite 5))]) = Inl (HttpError 202)
   \<and> Base_remove (Base exampleModel) (JObj [(''id'', JNum (Finite 1))]) = Inr JUndefined"
proof -
  let ?ctl = "Base exampleModel"
  have d0: "destroy (model ?ctl) [(''where'', JObj [(''id'', JNum (Finite 5))])]
              = Inr (JNum (Finite (of_nat 0)))"
    by (simp add: Base_def exampleModel_def)
  have d1: "destroy (model ?ctl) [(''where'', JObj [(''id'', JNum (Finite 1))])]
              = Inr (JNum (Finite (of_nat 1)))"
    by (simp add: Base_def exampleModel_def)
  show ?thesis
    using remove_202_iff_zero_rows [OF d0] remove_202_iff_zero_rows [OF d1] by simp
qed

subsection \<open>\<^verbatim>\<open>_getOptions\<close>\<close>

text \<open>
  C6, at the parameters \<^verbatim>\<open>{name: 'bob', exclude: ['password']}\<close>: \<open>exclude\<close> is read
  to select the attributes, and it is not among the keys of \<open>IGNORE\<close>, so it stays in
  the \<open>where\<close> filter with its value.
\<close>

theorem getOptions_where_keeps_exclude:
  "getProp (Base_getOptions (Base exampleModel) exampleModules
      [(''name'', JStr ''bob''), (''exclude'', JArr [JStr ''password''])]) ''where''
   = JObj [(''name'', JStr ''bob''), (''exclude'', JArr [JStr ''password''])]"
  by (simp add: eval_defs)

text \<open>
  C7, at the parameters \<^verbatim>\<open>{order: {Profile: {age: 'DESC'}, name: 'ASC'}}\<close>: the entry
  of the association \<^verbatim>\<open>Profile\<close> adds the model to \<open>include\<close> and adds nothing to
  \<open>order\<close>, which holds the pair of \<open>name\<close> alone.
\<close>

theorem getOptions_order_drops_association_fields:
  "Base_getOptions (Base exampleModel) exampleModules
      [(''order'', JObj [(''Profile'', JObj [(''age'', JStr ''DESC'')]),
                         (''name'', JStr ''ASC'')])]
   = [(''attributes'', JArr [JStr ''id'', JStr ''name'', JStr ''password'']),
      (''where'', JObj []),
      (''include'', JArr [JObj [(''model'', JModel ''Profile'')]]),
      (''order'', JArr [JArr [JStr ''name'', JStr ''ASC'']]),
      (''limit'', JNum (Finite 100)),
      (''offset'', JNum (Finite 0)),
      (''subQuery'', JBool False)]"
  by (simp add: eval_defs)

text \<open>
  C8. For every parameter object the options carry a number as \<open>limit\<close> and as
  \<open>offset\<close>: the given parameter converted to a number when there is one, and
  otherwise the default of the class, 100 for \<open>limit\<close> and 0 for \<open>offset\<close>.
\<close>

theorem getOptions_limit_offset:
  "(\<exists>l off. getProp (Base_getOptions this m params) LIMIT = JNum l
            \<and> getProp (Base_getOptions this m params) OFFSET = JNum off)
   \<and> (getProp params LIMIT \<noteq> JUndefined \<longrightarrow>
        getProp (Base_getOptions this m params) LIMIT = JNum (ToNumber m (getProp params LIMIT)))
   \<and> (getProp params LIMIT = JUndefined \<longrightarrow>
        getProp (Base_getOptions this m params) LIMIT = JNum (Finite 100))
   \<and> (getProp params OFFSET \<noteq> JUndefined \<longrightarrow>
        getProp (Base_getOptions this m params) OFFSET = JNum (ToNumber m (getProp params OFFSET)))
   \<and> (getProp params OFFSET = JUndefined \<longrightarrow>
        getProp (Base_getOptions this m params) OFFSET = JNum (Finite 0))"
proof -
  have l: "getProp (Base_getOptions this m params) LIMIT
             = JNum (ToNumber m (lodash_get params LIMIT Base_LIMIT))"
    by (simp add: Base_getOptions_def Let_def getProp_def LIMIT_def)
  have off: "getProp (Base_getOptions this m params) OFFSET
             = JNum (ToNumber m (lodash_get params OFFSET Base_OFFSET))"
    by (simp add: Base_getOptions_def Let_def getProp_def OFFSET_def)
  show ?thesis
    unfolding l off by (simp add: lodash_get_def Base_LIMIT_def Base_OFFSET_def)
qed

theorem getOptions_limit_offset_witness:
  "getProp (Base_getOptions (Base exampleModel) exampleModules
              [(''limit'', JNum (Finite 25)), (''name'', JStr ''bob'')]) LIMIT = JNum (Finite 25)
   \<and> getProp (Base_getOptions (Base exampleModel) exampleModules
              [(''limit'', JNum (Finite 25)), (''name'', JStr ''bob'')]) OFFSET = JNum (Finite 0)"
proof -
  let ?p = "[(''limit'', JNum (Finite 25)), (''name'', JStr ''bob'')]"
  have present: "getProp ?p LIMIT = JNum (Finite 25)"
    by (simp add: getProp_def LIMIT_def)
  have absent: "getProp ?p OFFSET = JUndefined"
    by (simp add: getProp_def OFFSET_def)
  show ?thesis
    using getOptions_limit_offset [of "Base exampleModel" exampleModules ?p] present absent
    by simp
qed

end
